theory Spec2Isabelle
  imports Complex_Main "HOL-Library.AList"
begin

section \<open>Numbers and exceptions\<close>

text \<open>
  An element of a numpy array of floats. Finite values are idealised as reals: rounding,
  overflow of a finite operation and the sign of zero are not represented. The three
  special values are, because the program can produce them: numpy divides an array by
  zero without raising (it yields an infinity or NaN and only warns), and every
  comparison with NaN is false.
\<close>

datatype npfloat = Fin real | PInf | NInf | NaN

definition signed_inf :: "real \<Rightarrow> npfloat" where
  "signed_inf s = (if 0 < s then PInf else if s < 0 then NInf else NaN)"

fun fneg :: "npfloat \<Rightarrow> npfloat" where
  "fneg (Fin a) = Fin (- a)"
| "fneg PInf = NInf"
| "fneg NInf = PInf"
| "fneg NaN = NaN"

fun fadd :: "npfloat \<Rightarrow> npfloat \<Rightarrow> npfloat" where
  "fadd NaN y = NaN"
| "fadd x NaN = NaN"
| "fadd (Fin a) (Fin b) = Fin (a + b)"
| "fadd PInf NInf = NaN"
| "fadd NInf PInf = NaN"
| "fadd PInf y = PInf"
| "fadd x PInf = PInf"
| "fadd NInf y = NInf"
| "fadd x NInf = NInf"

definition fsub :: "npfloat \<Rightarrow> npfloat \<Rightarrow> npfloat" where
  "fsub x y = fadd x (fneg y)"

fun fmul :: "npfloat \<Rightarrow> npfloat \<Rightarrow> npfloat" where
  "fmul NaN y = NaN"
| "fmul x NaN = NaN"
| "fmul (Fin a) (Fin b) = Fin (a * b)"
| "fmul (Fin a) PInf = signed_inf a"
| "fmul (Fin a) NInf = signed_inf (- a)"
| "fmul PInf (Fin b) = signed_inf b"
| "fmul NInf (Fin b) = signed_inf (- b)"
| "fmul PInf PInf = PInf"
| "fmul PInf NInf = NInf"
| "fmul NInf PInf = NInf"
| "fmul NInf NInf = PInf"

fun fdiv :: "npfloat \<Rightarrow> npfloat \<Rightarrow> npfloat" where
  "fdiv NaN y = NaN"
| "fdiv x NaN = NaN"
| "fdiv (Fin a) (Fin b) = (if b = 0 then signed_inf a else Fin (a / b))"
| "fdiv (Fin a) PInf = Fin 0"
| "fdiv (Fin a) NInf = Fin 0"
| "fdiv PInf (Fin b) = (if b < 0 then NInf else PInf)"
| "fdiv NInf (Fin b) = (if b < 0 then PInf else NInf)"
| "fdiv x y = NaN"

fun fexp :: "npfloat \<Rightarrow> npfloat" where
  "fexp (Fin a) = Fin (exp a)"
| "fexp PInf = PInf"
| "fexp NInf = Fin 0"
| "fexp NaN = NaN"

fun fsqrt :: "npfloat \<Rightarrow> npfloat" where
  "fsqrt (Fin a) = (if a < 0 then NaN else Fin (sqrt a))"
| "fsqrt PInf = PInf"
| "fsqrt NInf = NaN"
| "fsqrt NaN = NaN"

text \<open>\<open>x ** 2\<close> on an array element.\<close>

fun fsquare :: "npfloat \<Rightarrow> npfloat" where
  "fsquare (Fin a) = Fin (a ^ 2)"
| "fsquare PInf = PInf"
| "fsquare NInf = PInf"
| "fsquare NaN = NaN"

text \<open>The comparison \<open>x < 0\<close> of one element.\<close>

fun is_neg :: "npfloat \<Rightarrow> bool" where
  "is_neg (Fin a) = (a < 0)"
| "is_neg NInf = True"
| "is_neg PInf = False"
| "is_neg NaN = False"

fun is_finite :: "npfloat \<Rightarrow> bool" where
  "is_finite (Fin a) = True"
| "is_finite x = False"

text \<open>The Python exceptions the program can meet, with the message where one is needed.\<close>

datatype exn =
    ValueError string
  | KeyError string
  | IndexError string
  | AttributeError string
  | OSError string
  | RequestException string
  | HTTPError nat

definition bindE :: "exn + 'a \<Rightarrow> ('a \<Rightarrow> exn + 'b) \<Rightarrow> exn + 'b" where
  "bindE m f = (case m of Inl e \<Rightarrow> Inl e | Inr x \<Rightarrow> f x)"

section \<open>The density model\<close>

text \<open>
  A binary operator on two one-dimensional numpy arrays: element by element when the
  lengths agree, an array of length one is stretched to the other's length, and any
  other pair of lengths raises.
\<close>

definition broadcast_msg :: string where
  "broadcast_msg = ''operands could not be broadcast together''"

definition broadcast2 ::
  "(npfloat \<Rightarrow> npfloat \<Rightarrow> npfloat) \<Rightarrow> npfloat list \<Rightarrow> npfloat list \<Rightarrow> exn + npfloat list" where
  "broadcast2 f xs ys =
     (if length xs = length ys then Inr (map2 f xs ys)
      else if length xs = 1 then Inr (map (f (hd xs)) ys)
      else if length ys = 1 then Inr (map (\<lambda>x. f x (hd ys)) xs)
      else Inl (ValueError broadcast_msg))"

definition negative_values_msg :: string where
  "negative_values_msg = ''Temperature, pressure, or humidity data contains negative values.''"

definition R_const :: real where
  "R_const = 287.05"

definition Rw_const :: real where
  "Rw_const = 461.5"

text \<open>\<open>np.full(temp_col.shape, 0.5)\<close> when no humidity is passed.\<close>

definition rel_humidity_of :: "npfloat list \<Rightarrow> npfloat list option \<Rightarrow> npfloat list" where
  "rel_humidity_of temp_col humi_col =
     (case humi_col of Some h \<Rightarrow> h | None \<Rightarrow> replicate (length temp_col) (Fin 0.5))"

text \<open>
  \<open>compute_air_density\<close>: the three tests of the \<open>if\<close> in the source's order, then the
  expression for \<open>rho\<close> evaluated array by array as numpy does. The scalar
  \<open>1 / R_const - 1 / Rw_const\<close> is plain Python float arithmetic.
\<close>

definition compute_air_density ::
  "npfloat list \<Rightarrow> npfloat list \<Rightarrow> npfloat list option \<Rightarrow> exn + npfloat list" where
  "compute_air_density temp_col pres_col humi_col =
     (let rel_humidity = rel_humidity_of temp_col humi_col in
      if list_ex is_neg temp_col \<or> list_ex is_neg pres_col \<or> list_ex is_neg rel_humidity
      then Inl (ValueError negative_values_msg)
      else
        let inv_temp = map (fdiv (Fin 1)) temp_col;
            dry = map (\<lambda>p. fdiv p (Fin R_const)) pres_col;
            vapour = map (fmul (Fin 0.0000205)) (map fexp (map (fmul (Fin 0.0631846)) temp_col))
        in bindE (broadcast2 fmul rel_humidity vapour) (\<lambda>wet.
           bindE (broadcast2 fsub dry (map (\<lambda>x. fmul x (Fin (1 / R_const - 1 / Rw_const))) wet)) (\<lambda>inner.
           broadcast2 fmul inv_temp inner)))"

text \<open>
  The closed form as the specification writes it, for one index:
  \<open>(1/T) * (P/Rd - RH * (2.05e-5 * exp(0.0631846 * T)) * (1/Rd - 1/Rw))\<close>
  with \<open>Rd = 287.05\<close> and \<open>Rw = 461.5\<close>.
\<close>

definition density_formula :: "npfloat \<Rightarrow> npfloat \<Rightarrow> npfloat \<Rightarrow> npfloat" where
  "density_formula T P RH =
     fmul (fdiv (Fin 1) T)
       (fsub (fdiv P (Fin 287.05))
          (fmul (fmul RH (fmul (Fin (2.05 / 10 ^ 5)) (fexp (fmul (Fin 0.0631846) T))))
             (fsub (fdiv (Fin 1) (Fin 287.05)) (fdiv (Fin 1) (Fin 461.5)))))"

section \<open>Timestamps\<close>

text \<open>
  A calendar timestamp as \<open>num2date\<close> yields it and as pandas holds it. Python keeps
  the year within 1..9999 and every other field within two digits, so \<open>%Y\<close> is four
  digits and \<open>%m\<close>, \<open>%d\<close>, \<open>%H\<close>, \<open>%M\<close>, \<open>%S\<close> are two.
\<close>

record datetime =
  year :: nat
  month :: nat
  day :: nat
  hour :: nat
  minute :: nat
  second :: nat
  microsecond :: nat

definition digit_char :: "nat \<Rightarrow> char" where
  "digit_char n = char_of (48 + n)"

definition pad2 :: "nat \<Rightarrow> string" where
  "pad2 n = [digit_char (n div 10), digit_char (n mod 10)]"

definition pad4 :: "nat \<Rightarrow> string" where
  "pad4 n = [digit_char (n div 1000), digit_char (n div 100 mod 10),
             digit_char (n div 10 mod 10), digit_char (n mod 10)]"

text \<open>\<open>dt.strftime('%Y-%m-%d %H:%M:%S')\<close>: the microsecond is not printed.\<close>

definition strftime :: "datetime \<Rightarrow> string" where
  "strftime dt =
     pad4 (year dt) @ ''-'' @ pad2 (month dt) @ ''-'' @ pad2 (day dt) @ '' '' @
     pad2 (hour dt) @ '':'' @ pad2 (minute dt) @ '':'' @ pad2 (second dt)"

definition is_digit :: "char \<Rightarrow> bool" where
  "is_digit c = (48 \<le> (of_char c :: nat) \<and> (of_char c :: nat) \<le> 57)"

text \<open>
  The shape \<open>YYYY-MM-DD HH:MM:SS\<close>: nineteen characters, digits and separators each at
  its place, nothing after the seconds.
\<close>

definition timestamp_format :: "string \<Rightarrow> bool" where
  "timestamp_format s =
     (length s = 19 \<and> s ! 4 = CHR ''-'' \<and> s ! 7 = CHR ''-'' \<and> s ! 10 = CHR '' '' \<and>
      s ! 13 = CHR '':'' \<and> s ! 16 = CHR '':'' \<and>
      list_all (\<lambda>i. is_digit (s ! i)) [0, 1, 2, 3, 5, 6, 8, 9, 11, 12, 14, 15, 17, 18])"

definition number_of :: "string \<Rightarrow> nat" where
  "number_of s = foldl (\<lambda>a c. 10 * a + ((of_char c :: nat) - 48)) 0 s"

definition leap_year :: "nat \<Rightarrow> bool" where
  "leap_year y = ((y mod 4 = 0 \<and> y mod 100 \<noteq> 0) \<or> y mod 400 = 0)"

definition days_in_month :: "nat \<Rightarrow> nat \<Rightarrow> nat" where
  "days_in_month y m =
     (if m = 2 then (if leap_year y then 29 else 28)
      else if m = 4 \<or> m = 6 \<or> m = 9 \<or> m = 11 then 30 else 31)"

definition valid_datetime :: "datetime \<Rightarrow> bool" where
  "valid_datetime dt =
     (1 \<le> month dt \<and> month dt \<le> 12 \<and> 1 \<le> day dt \<and> day dt \<le> days_in_month (year dt) (month dt) \<and>
      hour dt < 24 \<and> minute dt < 60 \<and> second dt < 60 \<and> microsecond dt < 1000000)"

fun lex_le :: "nat list \<Rightarrow> nat list \<Rightarrow> bool" where
  "lex_le [] ys = True"
| "lex_le (x # xs) [] = False"
| "lex_le (x # xs) (y # ys) = (x < y \<or> (x = y \<and> lex_le xs ys))"

definition stamp_key :: "datetime \<Rightarrow> nat list" where
  "stamp_key dt = [year dt, month dt, day dt, hour dt, minute dt, second dt]"

text \<open>
  pandas keeps a timestamp as signed 64-bit nanoseconds since 1970: whole seconds from
  1677-09-21 00:12:44 to 2262-04-11 23:47:16 are representable.
\<close>

definition in_timestamp_bounds :: "datetime \<Rightarrow> bool" where
  "in_timestamp_bounds dt =
     (lex_le [1677, 9, 21, 0, 12, 44] (stamp_key dt) \<and> lex_le (stamp_key dt) [2262, 4, 11, 23, 47, 16])"

definition unparsable_msg :: string where
  "unparsable_msg = ''time data does not match format''"

definition out_of_bounds_msg :: string where
  "out_of_bounds_msg = ''Out of bounds nanosecond timestamp''"

text \<open>
  \<open>pd.to_datetime\<close> on a text of the shape above, the only texts the program gives it:
  the fields are read back, a date that is not in the calendar or not representable raises.
\<close>

definition pd_to_datetime :: "string \<Rightarrow> exn + datetime" where
  "pd_to_datetime s =
     (if \<not> timestamp_format s then Inl (ValueError unparsable_msg)
      else
        let ts = \<lparr> year = number_of (take 4 s), month = number_of (take 2 (drop 5 s)),
                   day = number_of (take 2 (drop 8 s)), hour = number_of (take 2 (drop 11 s)),
                   minute = number_of (take 2 (drop 14 s)), second = number_of (take 2 (drop 17 s)),
                   microsecond = 0 \<rparr>
        in if \<not> valid_datetime ts then Inl (ValueError unparsable_msg)
           else if \<not> in_timestamp_bounds ts then Inl (ValueError out_of_bounds_msg)
           else Inr ts)"

section \<open>The table\<close>

text \<open>
  A column of a DataFrame with its dtype. A column built from an empty Python list has
  dtype object and no values.
\<close>

datatype column =
    DatetimeCol "datetime list"
  | FloatCol "npfloat list"
  | StrCol "string list"
  | ObjectCol

text \<open>A DataFrame: its columns in order, each under its name.\<close>

type_synonym dataframe = "(string \<times> column) list"

fun col_length :: "column \<Rightarrow> nat" where
  "col_length (DatetimeCol xs) = length xs"
| "col_length (FloatCol xs) = length xs"
| "col_length (StrCol xs) = length xs"
| "col_length ObjectCol = 0"

definition series_of_datetimes :: "datetime list \<Rightarrow> column" where
  "series_of_datetimes xs = (if xs = [] then ObjectCol else DatetimeCol xs)"

definition series_of_floats :: "npfloat list \<Rightarrow> column" where
  "series_of_floats xs = (if xs = [] then ObjectCol else FloatCol xs)"

fun float_values :: "column \<Rightarrow> npfloat list" where
  "float_values (FloatCol xs) = xs"
| "float_values c = []"

definition nrows :: "dataframe \<Rightarrow> nat" where
  "nrows df = (case df of [] \<Rightarrow> 0 | (k, c) # rest \<Rightarrow> col_length c)"

definition same_length_msg :: string where
  "same_length_msg = ''All arrays must be of the same length''"

text \<open>\<open>pd.DataFrame({...})\<close> from a dict of lists, in the dict's order.\<close>

definition pd_DataFrame :: "(string \<times> column) list \<Rightarrow> exn + dataframe" where
  "pd_DataFrame cols =
     (if \<forall>c \<in> set (map snd cols). col_length c = col_length (snd (hd cols))
      then Inr cols else Inl (ValueError same_length_msg))"

text \<open>\<open>df[name]\<close>\<close>

definition df_get :: "dataframe \<Rightarrow> string \<Rightarrow> exn + column" where
  "df_get df name = (case map_of df name of None \<Rightarrow> Inl (KeyError name) | Some c \<Rightarrow> Inr c)"

text \<open>
  \<open>df[name] = values\<close>: an existing column is replaced where it stands, a new one goes
  last.
\<close>

definition df_set :: "dataframe \<Rightarrow> string \<Rightarrow> column \<Rightarrow> dataframe" where
  "df_set df name c = AList.update name c df"

definition dt_accessor_msg :: string where
  "dt_accessor_msg = ''Can only use .dt accessor with datetimelike values''"

text \<open>\<open>series.dt.strftime('%Y-%m-%d %H:%M:%S')\<close>\<close>

fun dt_strftime :: "column \<Rightarrow> exn + column" where
  "dt_strftime (DatetimeCol xs) = Inr (StrCol (map strftime xs))"
| "dt_strftime c = Inl (AttributeError dt_accessor_msg)"

text \<open>A list comprehension whose element expression can raise.\<close>

fun map_exn :: "('a \<Rightarrow> exn + 'b) \<Rightarrow> 'a list \<Rightarrow> exn + 'b list" where
  "map_exn f [] = Inr []"
| "map_exn f (x # xs) =
     (case f x of Inl e \<Rightarrow> Inl e
      | Inr y \<Rightarrow> (case map_exn f xs of Inl e \<Rightarrow> Inl e | Inr ys \<Rightarrow> Inr (y # ys)))"

section \<open>Files, network and output\<close>

datatype file_content = Binary string | CsvTable dataframe

datatype log_line = Failed string exn | Saved string

record response =
  status_code :: nat
  content :: string

text \<open>
  An open dataset: the data variables by name, each indexed time, latitude, longitude,
  and the time axis with its \<open>units\<close> attribute, when the file has them.
\<close>

record dataset =
  grids :: "string \<rightharpoonup> npfloat list list list"
  time_axis :: "(npfloat list \<times> string option) option"

text \<open>
  What lies outside the program: the lines \<open>readlines\<close> returns for a text file (none if
  it cannot be opened), the answer of the archive to a GET, whether a path can be
  opened for writing, how the NetCDF reader takes a payload, and \<open>num2date\<close>.
\<close>

record env =
  manifest :: "string \<Rightarrow> string list option"
  http_get :: "string \<Rightarrow> exn + response"
  can_write :: "string \<Rightarrow> bool"
  nc_decode :: "string \<Rightarrow> dataset option"
  num2date :: "npfloat list \<Rightarrow> string \<Rightarrow> exn + datetime list"

text \<open>
  What the program changes outside itself: the files on disk, the lines printed, and, for
  each turn of the loop, the URL requested and the artifact path derived for it.
\<close>

record world =
  files :: "string \<rightharpoonup> file_content"
  stdout :: "log_line list"
  attempts :: "(string \<times> string) list"

text \<open>The five accumulators of \<open>fetch_and_process_data\<close>.\<close>

record accumulators =
  u_50 :: "npfloat list"
  v_50 :: "npfloat list"
  T2M :: "npfloat list"
  PS :: "npfloat list"
  DateTimes :: "datetime list"

section \<open>The table assembler\<close>

definition wind_speed :: "npfloat list \<Rightarrow> npfloat list \<Rightarrow> npfloat list" where
  "wind_speed u v = map fsqrt (map2 fadd (map fsquare u) (map fsquare v))"

definition to_csv :: "env \<Rightarrow> dataframe \<Rightarrow> string \<Rightarrow> world \<Rightarrow> (exn + unit) \<times> world" where
  "to_csv E df save_path w =
     (if can_write E save_path
      then (Inr (), w\<lparr>files := (files w)(save_path \<mapsto> CsvTable df)\<rparr>)
      else (Inl (OSError save_path), w))"

definition create_dataframe ::
  "env \<Rightarrow> datetime list \<Rightarrow> npfloat list \<Rightarrow> npfloat list \<Rightarrow> npfloat list \<Rightarrow> npfloat list \<Rightarrow> string
     \<Rightarrow> world \<Rightarrow> (exn + dataframe) \<times> world" where
  "create_dataframe E dts u v t ps save_path w =
     (case map_exn (\<lambda>dt. pd_to_datetime (strftime dt)) dts of
        Inl e \<Rightarrow> (Inl e, w)
      | Inr stamps \<Rightarrow>
     (case pd_DataFrame [(''datetime'', series_of_datetimes stamps),
                         (''surface_pressure'', series_of_floats ps),
                         (''u_50'', series_of_floats u),
                         (''v_50'', series_of_floats v),
                         (''temp_2m'', series_of_floats t)] of
        Inl e \<Rightarrow> (Inl e, w)
      | Inr df0 \<Rightarrow>
     (case df_get df0 ''temp_2m'' of Inl e \<Rightarrow> (Inl e, w) | Inr temp_col \<Rightarrow>
     (case df_get df0 ''surface_pressure'' of Inl e \<Rightarrow> (Inl e, w) | Inr pres_col \<Rightarrow>
     (case compute_air_density (float_values temp_col) (float_values pres_col) None of
        Inl e \<Rightarrow> (Inl e, w)
      | Inr rho \<Rightarrow>
     (let df1 = df_set df0 ''dens_50m'' (series_of_floats rho) in
     (case df_get df1 ''u_50'' of Inl e \<Rightarrow> (Inl e, w) | Inr u_col \<Rightarrow>
     (case df_get df1 ''v_50'' of Inl e \<Rightarrow> (Inl e, w) | Inr v_col \<Rightarrow>
     (let df2 = df_set df1 ''ws_50m''
                  (series_of_floats (wind_speed (float_values u_col) (float_values v_col))) in
     (case df_get df2 ''datetime'' of Inl e \<Rightarrow> (Inl e, w) | Inr dt_col \<Rightarrow>
     (case dt_strftime dt_col of Inl e \<Rightarrow> (Inl e, w) | Inr text_col \<Rightarrow>
     (let df3 = df_set df2 ''datetime'' text_col in
     (case to_csv E df3 save_path w of
        (Inl e, w') \<Rightarrow> (Inl e, w')
      | (Inr _, w') \<Rightarrow> (Inr df3, w'\<lparr>stdout := stdout w' @ [Saved save_path]\<rparr>))))))))))))))"

section \<open>The source decoder\<close>

text \<open>
  Whitespace as \<open>str.strip()\<close> sees it, among the characters up to U+00FF (the
  characters of a \<open>string\<close> here; a manifest of URLs has no others).
\<close>

definition is_space :: "char \<Rightarrow> bool" where
  "is_space c = ((of_char c :: nat) \<in> {9, 10, 11, 12, 13, 28, 29, 30, 31, 32, 133, 160})"

definition strip :: "string \<Rightarrow> string" where
  "strip s = rev (dropWhile is_space (rev (dropWhile is_space s)))"

text \<open>\<open>s[a:b]\<close> for \<open>0 \<le> a \<le> b\<close>: the characters at offsets \<open>a\<close> to \<open>b - 1\<close> that exist.\<close>

definition slice :: "nat \<Rightarrow> nat \<Rightarrow> string \<Rightarrow> string" where
  "slice a b s = take (b - a) (drop a s)"

definition file_name_of :: "string \<Rightarrow> string" where
  "file_name_of url = strip (slice 108 116 url) @ ''-site.nc4''"

text \<open>\<open>os.path.join\<close> of two parts on a POSIX system.\<close>

definition os_path_join :: "string \<Rightarrow> string \<Rightarrow> string" where
  "os_path_join a b =
     (if b \<noteq> [] \<and> hd b = CHR ''/'' then b
      else if a = [] \<or> last a = CHR ''/'' then a @ b
      else a @ ''/'' @ b)"

definition raise_for_status :: "response \<Rightarrow> exn + unit" where
  "raise_for_status r =
     (if 400 \<le> status_code r \<and> status_code r < 600 then Inl (HTTPError (status_code r))
      else Inr ())"

text \<open>\<open>Dataset(full_path, 'r')\<close>: the file is read and handed to the NetCDF reader.\<close>

definition open_dataset :: "env \<Rightarrow> world \<Rightarrow> string \<Rightarrow> exn + dataset" where
  "open_dataset E w path =
     (case files w path of
        Some (Binary b) \<Rightarrow> (case nc_decode E b of Some d \<Rightarrow> Inr d | None \<Rightarrow> Inl (OSError path))
      | Some (CsvTable df) \<Rightarrow> Inl (OSError path)
      | None \<Rightarrow> Inl (OSError path))"

text \<open>\<open>val[0][0]\<close> for one time step \<open>val\<close>, a latitude by longitude grid.\<close>

fun cell00 :: "npfloat list list \<Rightarrow> exn + npfloat" where
  "cell00 [] = Inl (IndexError ''index 0 is out of bounds for axis 0 with size 0'')"
| "cell00 ([] # rows) = Inl (IndexError ''index 0 is out of bounds for axis 0 with size 0'')"
| "cell00 ((x # xs) # rows) = Inr x"

text \<open>\<open>[val[0][0] for val in data.variables[name][:]]\<close>\<close>

definition first_cells :: "dataset \<Rightarrow> string \<Rightarrow> exn + npfloat list" where
  "first_cells data name =
     (case grids data name of None \<Rightarrow> Inl (KeyError name) | Some g \<Rightarrow> map_exn cell00 g)"

text \<open>\<open>num2date(data.variables['time'][:], data.variables['time'].units)\<close>\<close>

definition decode_time :: "env \<Rightarrow> dataset \<Rightarrow> exn + datetime list" where
  "decode_time E data =
     (case time_axis data of
        None \<Rightarrow> Inl (KeyError ''time'')
      | Some (vals, units) \<Rightarrow>
          (case units of None \<Rightarrow> Inl (AttributeError ''units'') | Some un \<Rightarrow> num2date E vals un))"

text \<open>
  The body of the \<open>try\<close> for one source, statement by statement. It returns the exception
  that ended it, if one did, with the files and the accumulators as they stood at that
  moment: what was done before the exception stays done.
\<close>

definition try_source ::
  "env \<Rightarrow> string \<Rightarrow> string \<Rightarrow> world \<Rightarrow> accumulators \<Rightarrow> exn option \<times> world \<times> accumulators" where
  "try_source E url full_path w acc =
     (case http_get E url of Inl e \<Rightarrow> (Some e, w, acc) | Inr result \<Rightarrow>
     (case raise_for_status result of Inl e \<Rightarrow> (Some e, w, acc) | Inr _ \<Rightarrow>
     (if \<not> can_write E full_path then (Some (OSError full_path), w, acc) else
     (let w1 = w\<lparr>files := (files w)(full_path \<mapsto> Binary (content result))\<rparr> in
     (case open_dataset E w1 full_path of Inl e \<Rightarrow> (Some e, w1, acc) | Inr data \<Rightarrow>
     (case first_cells data ''U50M'' of Inl e \<Rightarrow> (Some e, w1, acc) | Inr us \<Rightarrow>
     (let acc1 = acc\<lparr>u_50 := u_50 acc @ us\<rparr> in
     (case first_cells data ''V50M'' of Inl e \<Rightarrow> (Some e, w1, acc1) | Inr vs \<Rightarrow>
     (let acc2 = acc1\<lparr>v_50 := v_50 acc1 @ vs\<rparr> in
     (case first_cells data ''T2M'' of Inl e \<Rightarrow> (Some e, w1, acc2) | Inr ts \<Rightarrow>
     (let acc3 = acc2\<lparr>T2M := T2M acc2 @ ts\<rparr> in
     (case first_cells data ''PS'' of Inl e \<Rightarrow> (Some e, w1, acc3) | Inr ps \<Rightarrow>
     (let acc4 = acc3\<lparr>PS := PS acc3 @ ps\<rparr> in
     (case decode_time E data of Inl e \<Rightarrow> (Some e, w1, acc4) | Inr dates \<Rightarrow>
     (let acc5 = acc4\<lparr>DateTimes := DateTimes acc4 @ dates\<rparr>;
          w2 = w1\<lparr>files := (files w1)(full_path := None)\<rparr>
      in (None, w2, acc5))))))))))))))))"

text \<open>One turn of the loop: the name and the path, the \<open>try\<close>, and the \<open>except\<close> that prints.\<close>

definition process_source ::
  "env \<Rightarrow> string \<Rightarrow> world \<times> accumulators \<Rightarrow> string \<Rightarrow> world \<times> accumulators" where
  "process_source E output_dir st url =
     (let file_name = file_name_of url;
          full_path = os_path_join output_dir file_name;
          w = (fst st)\<lparr>attempts := attempts (fst st) @ [(strip url, full_path)]\<rparr>
      in case try_source E (strip url) full_path w (snd st) of
           (None, w', acc') \<Rightarrow> (w', acc')
         | (Some e, w', acc') \<Rightarrow> (w'\<lparr>stdout := stdout w' @ [Failed file_name e]\<rparr>, acc'))"

definition no_samples :: accumulators where
  "no_samples = \<lparr> u_50 = [], v_50 = [], T2M = [], PS = [], DateTimes = [] \<rparr>"

definition fetch_and_process_data ::
  "env \<Rightarrow> string \<Rightarrow> string \<Rightarrow> string \<Rightarrow> world \<Rightarrow> (exn + dataframe) \<times> world" where
  "fetch_and_process_data E file_path output_dir save_path w =
     (case manifest E file_path of
        None \<Rightarrow> (Inl (OSError file_path), w)
      | Some lines \<Rightarrow>
          (let urls = drop 1 lines;
               st = foldl (process_source E output_dir) (w, no_samples) urls;
               acc = snd st
           in create_dataframe E (DateTimes acc) (u_50 acc) (v_50 acc) (T2M acc) (PS acc)
                save_path (fst st)))"

section \<open>Sample inputs\<close>

definition sample_time :: datetime where
  "sample_time = \<lparr> year = 2020, month = 1, day = 2, hour = 3, minute = 4, second = 5,
                    microsecond = 678000 \<rparr>"

definition earlier_time :: datetime where
  "earlier_time = \<lparr> year = 2000, month = 1, day = 1, hour = 0, minute = 30, second = 0,
                     microsecond = 0 \<rparr>"

definition empty_world :: world where
  "empty_world = \<lparr> files = Map.empty, stdout = [], attempts = [] \<rparr>"

definition sample_url :: string where
  "sample_url = ''https://goldsmr4.gesdisc.eosdis.nasa.gov/opendap/MERRA2/M2T1NXSLV.5.12.4/2000/01/MERRA2_200.tavg1_2d_slv_Nx.20000101.nc4.nc4''"

definition second_url :: string where
  "second_url = ''https://goldsmr4.gesdisc.eosdis.nasa.gov/opendap/MERRA2/M2T1NXSLV.5.12.4/2000/01/MERRA2_200.tavg1_2d_slv_Nx.20000102.nc4.nc4''"

text \<open>An archive that answers nothing and a disk that can be written.\<close>

definition offline_env :: env where
  "offline_env = \<lparr> manifest = (\<lambda>p. if p = ''manifest.txt''
                                      then Some [''header'' @ [CHR 0x0A], sample_url @ [CHR 0x0A], second_url]
                                      else None),
                   http_get = (\<lambda>u. Inl (RequestException u)),
                   can_write = (\<lambda>p. True),
                   nc_decode = (\<lambda>b. None),
                   num2date = (\<lambda>vals un. Inr []) \<rparr>"

text \<open>An archive whose payload has \<open>U50M\<close> for one time step and no other variable.\<close>

definition partial_dataset :: dataset where
  "partial_dataset = \<lparr> grids = [''U50M'' \<mapsto> [[[Fin 3]]]], time_axis = None \<rparr>"

definition partial_env :: env where
  "partial_env = \<lparr> manifest = (\<lambda>p. if p = ''manifest.txt''
                                      then Some [''header'' @ [CHR 0x0A], sample_url @ [CHR 0x0A]]
                                      else None),
                   http_get = (\<lambda>u. Inr \<lparr> status_code = 200, content = ''payload'' \<rparr>),
                   can_write = (\<lambda>p. True),
                   nc_decode = (\<lambda>b. if b = ''payload'' then Some partial_dataset else None),
                   num2date = (\<lambda>vals un. Inr []) \<rparr>"

text \<open>An archive that answers 200 with a payload the NetCDF reader cannot open.\<close>

definition garbage_env :: env where
  "garbage_env = \<lparr> manifest = (\<lambda>p. if p = ''manifest.txt''
                                      then Some [''header'' @ [CHR 0x0A], sample_url @ [CHR 0x0A]]
                                      else None),
                   http_get = (\<lambda>u. Inr \<lparr> status_code = 200, content = ''<html>busy</html>'' \<rparr>),
                   can_write = (\<lambda>p. True),
                   nc_decode = (\<lambda>b. None),
                   num2date = (\<lambda>vals un. Inr []) \<rparr>"

text \<open>An archive whose payload decodes in full: one time step of each variable.\<close>

definition full_dataset :: dataset where
  "full_dataset = \<lparr> grids = [''U50M'' \<mapsto> [[[Fin 3]]], ''V50M'' \<mapsto> [[[Fin 4]]],
                               ''T2M'' \<mapsto> [[[Fin 280]]], ''PS'' \<mapsto> [[[Fin 101325]]]],
                     time_axis = Some ([Fin 30], Some ''minutes since 2000-01-01 00:00:00'') \<rparr>"

definition good_env :: env where
  "good_env = \<lparr> manifest = (\<lambda>p. if p = ''manifest.txt''
                                   then Some [''header'' @ [CHR 0x0A], sample_url @ [CHR 0x0A]]
                                   else None),
                http_get = (\<lambda>u. Inr \<lparr> status_code = 200, content = ''payload'' \<rparr>),
                can_write = (\<lambda>p. True),
                nc_decode = (\<lambda>b. Some full_dataset),
                num2date = (\<lambda>vals un. Inr [earlier_time]) \<rparr>"

section \<open>Properties of the density model\<close>

lemma broadcast2_same:
  "length xs = length ys \<Longrightarrow> broadcast2 f xs ys = Inr (map2 f xs ys)"
  by (simp add: broadcast2_def)

text \<open>
  The specification's formula and the source's expression differ only in how the
  constants are written.
\<close>

lemma density_formula_unfold:
  "density_formula T P RH =
     fmul (fdiv (Fin 1) T)
       (fsub (fdiv P (Fin R_const))
          (fmul (fmul RH (fmul (Fin 0.0000205) (fexp (fmul (Fin 0.0631846) T))))
             (Fin (1 / R_const - 1 / Rw_const))))"
  by (simp add: density_formula_def R_const_def Rw_const_def fsub_def)

lemma length_rel_humidity_default [simp]:
  "length (rel_humidity_of T None) = length T"
  by (simp add: rel_humidity_of_def)

lemma rel_humidity_default_not_neg [simp]:
  "\<not> list_ex is_neg (rel_humidity_of T None)"
  by (simp add: rel_humidity_of_def list_ex_iff)

text \<open>
  What a call returns once the validation has passed and the three arrays have one length:
  the array-wise evaluation agrees, index by index, with the formula.
\<close>

lemma compute_air_density_validated:
  assumes "length P = length T" and "length (rel_humidity_of T H) = length T"
    and "\<not> list_ex is_neg T" and "\<not> list_ex is_neg P"
    and "\<not> list_ex is_neg (rel_humidity_of T H)"
  shows "compute_air_density T P H =
           Inr (map (\<lambda>i. density_formula (T ! i) (P ! i) (rel_humidity_of T H ! i)) [0..<length T])"
proof -
  let ?RH = "rel_humidity_of T H"
  let ?vap = "map (fmul (Fin 0.0000205)) (map fexp (map (fmul (Fin 0.0631846)) T))"
  let ?wet = "map2 fmul ?RH ?vap"
  let ?inner = "map2 fsub (map (\<lambda>p. fdiv p (Fin R_const)) P)
                   (map (\<lambda>x. fmul x (Fin (1 / R_const - 1 / Rw_const))) ?wet)"
  let ?rho = "map2 fmul (map (fdiv (Fin 1)) T) ?inner"
  have run: "compute_air_density T P H = Inr ?rho"
    using assms
    by (simp add: compute_air_density_def Let_def bindE_def broadcast2_same)
  have len: "length ?rho = length T"
    using assms by simp
  have "?rho = map (\<lambda>i. density_formula (T ! i) (P ! i) (?RH ! i)) [0..<length T]"
  proof (rule nth_equalityI)
    show "length ?rho = length (map (\<lambda>i. density_formula (T ! i) (P ! i) (?RH ! i)) [0..<length T])"
      using len by simp
  next
    fix i assume "i < length ?rho"
    then have i: "i < length T" using len by simp
    then show "?rho ! i = map (\<lambda>i. density_formula (T ! i) (P ! i) (?RH ! i)) [0..<length T] ! i"
      using assms by (simp add: density_formula_unfold)
  qed
  with run show ?thesis by simp
qed

lemma compute_air_density_negative:
  "list_ex is_neg T \<or> list_ex is_neg P \<or> list_ex is_neg (rel_humidity_of T H)
   \<Longrightarrow> compute_air_density T P H = Inl (ValueError negative_values_msg)"
  by (simp add: compute_air_density_def Let_def)

lemma broadcast2_not_negative_msg:
  "broadcast2 f xs ys \<noteq> Inl (ValueError negative_values_msg)"
  by (simp add: broadcast2_def broadcast_msg_def negative_values_msg_def)

lemma compute_air_density_no_negative:
  assumes "\<not> list_ex is_neg T" and "\<not> list_ex is_neg P"
    and "\<not> list_ex is_neg (rel_humidity_of T H)"
  shows "compute_air_density T P H \<noteq> Inl (ValueError negative_values_msg)"
  using assms broadcast2_not_negative_msg
  by (auto simp add: compute_air_density_def Let_def bindE_def split: sum.splits)

text \<open>
  Claim C3. For temperature, pressure and humidity arrays of one length with no negative
  element, \<open>compute_air_density\<close> returns an array of that length whose element at every
  index \<open>i\<close> is \<open>(1/T[i]) * (P[i]/Rd - RH[i] * (2.05e-5 * exp(0.0631846 * T[i])) * (1/Rd - 1/Rw))\<close>
  with \<open>Rd = 287.05\<close> and \<open>Rw = 461.5\<close>. The result is a function of the three arrays
  alone. The humidity array is the one passed, or the defaulted one.
\<close>

theorem compute_air_density_formula:
  assumes "length P = length T" and "length (rel_humidity_of T H) = length T"
    and "\<not> list_ex is_neg T" and "\<not> list_ex is_neg P"
    and "\<not> list_ex is_neg (rel_humidity_of T H)"
  shows "\<exists>rho. compute_air_density T P H = Inr rho \<and> length rho = length T \<and>
           (\<forall>i < length T. rho ! i = density_formula (T ! i) (P ! i) (rel_humidity_of T H ! i))"
  using compute_air_density_validated [OF assms] by simp

theorem compute_air_density_formula_witness:
  "\<exists>rho. compute_air_density [Fin 280, Fin 0] [Fin 101325, Fin 90000] (Some [Fin 0.5, Fin 1]) = Inr rho
     \<and> length rho = 2
     \<and> rho ! 0 = density_formula (Fin 280) (Fin 101325) (Fin 0.5)
     \<and> rho ! 1 = density_formula (Fin 0) (Fin 90000) (Fin 1)"
  using compute_air_density_formula [of "[Fin 101325, Fin 90000]" "[Fin 280, Fin 0]" "Some [Fin 0.5, Fin 1]"]
  by (auto simp add: rel_humidity_of_def)

text \<open>
  Claim C4. \<open>compute_air_density\<close> raises the ValueError of its validation exactly when
  some element of the temperature array, of the pressure array or of the humidity array
  (the defaulted one when none is passed) is negative. The witness has the calls the
  claim names: a negative temperature, a negative pressure alone, a negative humidity
  alone, and a negative pressure with the humidity left out.
\<close>

theorem compute_air_density_raises_iff:
  "compute_air_density T P H = Inl (ValueError negative_values_msg) \<longleftrightarrow>
     (\<exists>x \<in> set T. is_neg x) \<or> (\<exists>x \<in> set P. is_neg x) \<or>
     (\<exists>x \<in> set (rel_humidity_of T H). is_neg x)"
  using compute_air_density_negative [of T P H] compute_air_density_no_negative [of T P H]
  by (auto simp add: list_ex_iff)

theorem compute_air_density_raises_iff_witness:
  "compute_air_density [Fin (- 1)] [Fin 101325] (Some [Fin 0.5]) = Inl (ValueError negative_values_msg)
   \<and> compute_air_density [Fin 280] [Fin (- 101325)] (Some [Fin 0.5]) = Inl (ValueError negative_values_msg)
   \<and> compute_air_density [Fin 280] [Fin 101325] (Some [Fin (- 0.5)]) = Inl (ValueError negative_values_msg)
   \<and> compute_air_density [Fin 280] [Fin (- 101325)] None = Inl (ValueError negative_values_msg)
   \<and> compute_air_density [Fin 280] [Fin 101325] None \<noteq> Inl (ValueError negative_values_msg)
   \<and> compute_air_density [Fin 280] [Fin 101325] (Some [Fin 0.5]) \<noteq> Inl (ValueError negative_values_msg)"
  using compute_air_density_raises_iff [of "[Fin (- 1)]" "[Fin 101325]" "Some [Fin 0.5]"]
    compute_air_density_raises_iff [of "[Fin 280]" "[Fin (- 101325)]" "Some [Fin 0.5]"]
    compute_air_density_raises_iff [of "[Fin 280]" "[Fin 101325]" "Some [Fin (- 0.5)]"]
    compute_air_density_raises_iff [of "[Fin 280]" "[Fin (- 101325)]" None]
    compute_air_density_raises_iff [of "[Fin 280]" "[Fin 101325]" None]
    compute_air_density_raises_iff [of "[Fin 280]" "[Fin 101325]" "Some [Fin 0.5]"]
  by (simp add: rel_humidity_of_def)

text \<open>
  Claim C5. A call that leaves the humidity out returns what the call with a humidity
  array of the temperature's length, every element 0.5, returns; so on \<open>T = [280.0]\<close>,
  \<open>P = [101325.0]\<close> the call without humidity and the call with \<open>[0.5]\<close> agree.
\<close>

theorem compute_air_density_default_humidity:
  "compute_air_density T P None = compute_air_density T P (Some (replicate (length T) (Fin 0.5)))
   \<and> compute_air_density [Fin 280] [Fin 101325] None
       = compute_air_density [Fin 280] [Fin 101325] (Some [Fin 0.5])"
  by (simp add: compute_air_density_def rel_humidity_of_def)

lemma fmul_PInf_not_finite: "\<not> is_finite (fmul PInf x)"
  by (cases x) (simp_all add: signed_inf_def)

lemma density_formula_zero_not_finite: "\<not> is_finite (density_formula (Fin 0) p h)"
  by (simp add: density_formula_def signed_inf_def fmul_PInf_not_finite)

text \<open>
  Claim C10. A temperature of 0 passes the validation, which rejects negative elements
  only, and the division \<open>1 / T[i]\<close> is carried out unguarded: the call returns an array,
  and its element at that index is an infinity or NaN. On \<open>temperature = [0.0]\<close> with
  \<open>pressure = [101325.0]\<close> the result is \<open>[inf]\<close>.
\<close>

theorem compute_air_density_zero_temperature:
  assumes "length P = length T" and "length (rel_humidity_of T H) = length T"
    and "\<not> list_ex is_neg T" and "\<not> list_ex is_neg P"
    and "\<not> list_ex is_neg (rel_humidity_of T H)"
    and "i < length T" and "T ! i = Fin 0"
  shows "\<exists>rho. compute_air_density T P H = Inr rho \<and> \<not> is_finite (rho ! i)"
  using compute_air_density_validated [OF assms(1-5)] assms(6,7)
  by (simp add: density_formula_zero_not_finite)

theorem compute_air_density_zero_temperature_witness:
  "compute_air_density [Fin 0] [Fin 101325] None = Inr [PInf]"
  using compute_air_density_zero_temperature [of "[Fin 101325]" "[Fin 0]" None 0]
  by (simp add: compute_air_density_def rel_humidity_of_def Let_def bindE_def broadcast2_def
      R_const_def Rw_const_def fsub_def signed_inf_def)

section \<open>Properties of the timestamp text\<close>

lemma digit_char_simps:
  "digit_char 0 = CHR ''0''" "digit_char 1 = CHR ''1''" "digit_char 2 = CHR ''2''"
  "digit_char 3 = CHR ''3''" "digit_char 4 = CHR ''4''" "digit_char 5 = CHR ''5''"
  "digit_char 6 = CHR ''6''" "digit_char 7 = CHR ''7''" "digit_char 8 = CHR ''8''"
  "digit_char 9 = CHR ''9''" "digit_char (Suc 0) = CHR ''1''"
  by (simp_all add: digit_char_def char_of_eq_iff)

lemma digits4_div:
  fixes x y z u :: nat
  assumes "y < 10" "z < 10" "u < 10"
  shows "(1000 * x + 100 * y + 10 * z + u) div 1000 = x"
    and "(1000 * x + 100 * y + 10 * z + u) div 100 mod 10 = y"
    and "(1000 * x + 100 * y + 10 * z + u) div 10 mod 10 = z"
    and "(1000 * x + 100 * y + 10 * z + u) mod 10 = u"
proof -
  let ?n = "1000 * x + 100 * y + 10 * z + u"
  show "?n div 1000 = x"
    using assms by (intro div_nat_eqI) simp_all
  have "?n div 100 = 10 * x + y"
    using assms by (intro div_nat_eqI) simp_all
  then show "?n div 100 mod 10 = y" using assms by simp
  define k where "k = 10 * x + y"
  have "?n div 10 = 10 * k + z"
    using assms by (intro div_nat_eqI) (simp_all add: k_def)
  moreover have "(10 * k + z) mod 10 = z" using assms by simp
  ultimately show "?n div 10 mod 10 = z" by simp
  have "?n = 10 * (100 * x + 10 * y + z) + u" by simp
  then have "?n mod 10 = u mod 10" by (metis mod_mult_self4)
  then show "?n mod 10 = u" using assms by simp
qed

lemma digits4_sum:
  fixes n :: nat
  shows "1000 * (n div 1000) + 100 * (n div 100 mod 10) + 10 * (n div 10 mod 10) + n mod 10 = n"
proof -
  have h: "n div 100 = n div 10 div 10" "n div 1000 = n div 100 div 10"
    by (simp_all add: div_mult2_eq [symmetric])
  have a: "n = 10 * (n div 10) + n mod 10" by simp
  have b: "n div 10 = 10 * (n div 100) + n div 10 mod 10"
    unfolding h(1) by simp
  have c: "n div 100 = 10 * (n div 1000) + n div 100 mod 10"
    unfolding h(2) by simp
  show ?thesis using a b c by linarith
qed

lemma of_char_digit_char: "n < 10 \<Longrightarrow> (of_char (digit_char n) :: nat) = 48 + n"
  by (simp add: digit_char_def)

lemma is_digit_digit_char: "n < 10 \<Longrightarrow> is_digit (digit_char n)"
  by (simp add: is_digit_def of_char_digit_char)

lemma digit_char_of_char: "is_digit c \<Longrightarrow> digit_char ((of_char c :: nat) - 48) = c"
  by (simp add: is_digit_def digit_char_def)

lemma of_char_minus_lt: "is_digit c \<Longrightarrow> (of_char c :: nat) - 48 < 10"
  by (auto simp add: is_digit_def)

lemma number_of_pad2: "n < 100 \<Longrightarrow> number_of (pad2 n) = n"
  by (simp add: number_of_def pad2_def of_char_digit_char)

lemma number_of_pad4:
  assumes "n < 10000"
  shows "number_of (pad4 n) = n"
proof -
  have "n div 1000 < 10"
    using assms by (simp add: less_mult_imp_div_less)
  then have "number_of (pad4 n) =
      1000 * (n div 1000) + 100 * (n div 100 mod 10) + 10 * (n div 10 mod 10) + n mod 10"
    by (simp add: number_of_def pad4_def of_char_digit_char)
  then show ?thesis by (simp only: digits4_sum)
qed

lemma pad2_number_of: "is_digit a \<Longrightarrow> is_digit b \<Longrightarrow> pad2 (number_of [a, b]) = [a, b]"
  using of_char_minus_lt [of a] of_char_minus_lt [of b]
  by (simp add: number_of_def pad2_def digit_char_of_char)

lemma pad4_number_of:
  assumes "is_digit a" "is_digit b" "is_digit c" "is_digit d"
  shows "pad4 (number_of [a, b, c, d]) = [a, b, c, d]"
proof -
  define x where "x = (of_char a :: nat) - 48"
  define y where "y = (of_char b :: nat) - 48"
  define z where "z = (of_char c :: nat) - 48"
  define u where "u = (of_char d :: nat) - 48"
  have b: "y < 10" "z < 10" "u < 10"
    using assms by (simp_all add: y_def z_def u_def of_char_minus_lt)
  have n: "number_of [a, b, c, d] = 1000 * x + 100 * y + 10 * z + u"
    by (simp add: number_of_def x_def y_def z_def u_def)
  have "pad4 (number_of [a, b, c, d]) = [digit_char x, digit_char y, digit_char z, digit_char u]"
    unfolding n pad4_def by (simp only: digits4_div [OF b])
  then show ?thesis
    using assms by (simp add: x_def y_def z_def u_def digit_char_of_char)
qed

lemma length_pad [simp]: "length (pad2 n) = 2" "length (pad4 n) = 4"
  by (simp_all add: pad2_def pad4_def)

lemma strftime_parts:
  "take 4 (strftime dt) = pad4 (year dt)"
  "take 2 (drop 5 (strftime dt)) = pad2 (month dt)"
  "take 2 (drop 8 (strftime dt)) = pad2 (day dt)"
  "take 2 (drop 11 (strftime dt)) = pad2 (hour dt)"
  "take 2 (drop 14 (strftime dt)) = pad2 (minute dt)"
  "take 2 (drop 17 (strftime dt)) = pad2 (second dt)"
  by (simp_all add: strftime_def pad2_def pad4_def)

lemma timestamp_format_strftime:
  assumes "year dt < 10000" "month dt < 100" "day dt < 100" "hour dt < 100" "minute dt < 100"
    "second dt < 100"
  shows "timestamp_format (strftime dt)"
proof -
  have d: "\<And>n::nat. n < 100 \<Longrightarrow> n div 10 < 10" "\<And>n::nat. n mod 10 < 10"
    "\<And>n::nat. n < 10000 \<Longrightarrow> n div 1000 < 10"
    by (simp_all add: less_mult_imp_div_less)
  show ?thesis
    using assms
    by (simp add: timestamp_format_def strftime_def pad2_def pad4_def is_digit_digit_char d)
qed

lemma days_in_month_le: "days_in_month y m \<le> 31"
  by (simp add: days_in_month_def)

lemma valid_datetime_bounds:
  assumes "valid_datetime dt"
  shows "month dt < 100" "day dt < 100" "hour dt < 100" "minute dt < 100" "second dt < 100"
  using assms days_in_month_le [of "year dt" "month dt"]
  by (simp_all add: valid_datetime_def)

lemma in_bounds_year: "in_timestamp_bounds dt \<Longrightarrow> year dt < 10000"
  by (auto simp add: in_timestamp_bounds_def stamp_key_def)

text \<open>Fields to text and back.\<close>

lemma pd_to_datetime_strftime:
  assumes "valid_datetime dt" and "in_timestamp_bounds dt"
  shows "pd_to_datetime (strftime dt) = Inr (dt\<lparr>microsecond := 0\<rparr>)"
proof -
  note b = valid_datetime_bounds [OF assms(1)] in_bounds_year [OF assms(2)]
  have fmt: "timestamp_format (strftime dt)"
    using b by (simp add: timestamp_format_strftime)
  let ?ts = "\<lparr> year = year dt, month = month dt, day = day dt, hour = hour dt,
                minute = minute dt, second = second dt, microsecond = 0 \<rparr>"
  have v: "valid_datetime ?ts" using assms(1) by (simp add: valid_datetime_def)
  have i: "in_timestamp_bounds ?ts"
    using assms(2) by (simp add: in_timestamp_bounds_def stamp_key_def)
  have "pd_to_datetime (strftime dt) = Inr ?ts"
    using fmt v i b
    by (simp add: pd_to_datetime_def strftime_parts number_of_pad2 number_of_pad4)
  then show ?thesis by simp
qed

lemma list19:
  assumes "length s = 19"
  obtains c0 c1 c2 c3 c4 c5 c6 c7 c8 c9 c10 c11 c12 c13 c14 c15 c16 c17 c18
  where "s = [c0, c1, c2, c3, c4, c5, c6, c7, c8, c9, c10, c11, c12, c13, c14, c15, c16, c17, c18]"
proof -
  have "s = map ((!) s) [0..<19]"
    using assms map_nth [of s] by simp
  also have "[0..<19] = [0, 1, 2, 3, 4, 5, 6, 7, 8, 9, 10, 11, 12, 13, 14, 15, 16, 17, 18 :: nat]"
    by code_simp
  finally show ?thesis using that by simp
qed

text \<open>Text to fields and back.\<close>

lemma strftime_pd_to_datetime:
  assumes "pd_to_datetime s = Inr ts"
  shows "strftime ts = s"
proof -
  have fmt: "timestamp_format s"
    using assms by (auto simp add: pd_to_datetime_def split: if_splits)
  then have "length s = 19" by (simp add: timestamp_format_def)
  then obtain c0 c1 c2 c3 c4 c5 c6 c7 c8 c9 c10 c11 c12 c13 c14 c15 c16 c17 c18
    where s: "s = [c0, c1, c2, c3, c4, c5, c6, c7, c8, c9, c10, c11, c12, c13, c14, c15, c16, c17, c18]"
    by (rule list19)
  have seps: "c4 = CHR ''-''" "c7 = CHR ''-''" "c10 = CHR '' ''" "c13 = CHR '':''" "c16 = CHR '':''"
    using fmt by (simp_all add: timestamp_format_def s)
  have digs: "is_digit c0" "is_digit c1" "is_digit c2" "is_digit c3" "is_digit c5" "is_digit c6"
    "is_digit c8" "is_digit c9" "is_digit c11" "is_digit c12" "is_digit c14" "is_digit c15"
    "is_digit c17" "is_digit c18"
    using fmt by (simp_all add: timestamp_format_def s)
  have ts: "ts = \<lparr> year = number_of [c0, c1, c2, c3], month = number_of [c5, c6],
                   day = number_of [c8, c9], hour = number_of [c11, c12],
                   minute = number_of [c14, c15], second = number_of [c17, c18], microsecond = 0 \<rparr>"
    using assms fmt by (simp add: pd_to_datetime_def s Let_def split: if_splits)
  show ?thesis
    unfolding ts strftime_def
    by (simp add: pad2_number_of pad4_number_of digs seps s)
qed

section \<open>Properties of the table assembler\<close>

lemma map_exn_Inr:
  "map_exn f xs = Inr ys \<Longrightarrow> length ys = length xs \<and> (\<forall>i < length xs. f (xs ! i) = Inr (ys ! i))"
proof (induction xs arbitrary: ys)
  case Nil
  then show ?case by simp
next
  case (Cons x xs)
  from Cons.prems obtain y ys' where y: "f x = Inr y" and ys': "map_exn f xs = Inr ys'"
    and ys: "ys = y # ys'"
    by (auto split: sum.splits)
  from Cons.IH [OF ys'] y ys show ?case
    by (auto simp add: nth_Cons split: nat.splits)
qed

lemma map_exn_map:
  "(\<And>x. x \<in> set xs \<Longrightarrow> f x = Inr (g x)) \<Longrightarrow> map_exn f xs = Inr (map g xs)"
  by (induction xs) simp_all

lemma stamps_text:
  assumes "map_exn (\<lambda>dt. pd_to_datetime (strftime dt)) dts = Inr stamps"
  shows "length stamps = length dts" and "map strftime stamps = map strftime dts"
proof -
  from map_exn_Inr [OF assms]
  have len: "length stamps = length dts"
    and each: "\<And>i. i < length dts \<Longrightarrow> pd_to_datetime (strftime (dts ! i)) = Inr (stamps ! i)"
    by simp_all
  show "length stamps = length dts" by (rule len)
  show "map strftime stamps = map strftime dts"
  proof (rule nth_equalityI)
    show "length (map strftime stamps) = length (map strftime dts)"
      using len by simp
  next
    fix i assume "i < length (map strftime stamps)"
    then have i: "i < length dts" using len by simp
    from strftime_pd_to_datetime [OF each [OF i]]
    show "map strftime stamps ! i = map strftime dts ! i"
      using i len by simp
  qed
qed

lemma col_length_series [simp]:
  "col_length (series_of_floats xs) = length xs"
  "col_length (series_of_datetimes ds) = length ds"
  by (simp_all add: series_of_floats_def series_of_datetimes_def)

lemma create_dataframe_empty:
  "\<exists>e. fst (create_dataframe E [] u v t ps save_path w) = Inl e"
  by (auto simp add: create_dataframe_def pd_DataFrame_def df_get_def df_set_def
      series_of_floats_def series_of_datetimes_def wind_speed_def Let_def
      compute_air_density_def rel_humidity_of_def bindE_def broadcast2_def split: sum.splits)

lemma create_dataframe_run:
  assumes stamps: "map_exn (\<lambda>dt. pd_to_datetime (strftime dt)) dts = Inr stamps"
    and ne: "dts \<noteq> []"
    and len: "length ps = length dts" "length u = length dts" "length v = length dts"
      "length t = length dts"
    and rho: "compute_air_density t ps None = Inr rho" "length rho = length dts"
  shows "create_dataframe E dts u v t ps save_path w =
     (let df = [(''datetime'', StrCol (map strftime dts)), (''surface_pressure'', FloatCol ps),
                (''u_50'', FloatCol u), (''v_50'', FloatCol v), (''temp_2m'', FloatCol t),
                (''dens_50m'', FloatCol rho), (''ws_50m'', FloatCol (wind_speed u v))]
      in if can_write E save_path
         then (Inr df, w\<lparr>files := (files w)(save_path \<mapsto> CsvTable df),
                         stdout := stdout w @ [Saved save_path]\<rparr>)
         else (Inl (OSError save_path), w))"
proof -
  have ne': "stamps \<noteq> []" "ps \<noteq> []" "u \<noteq> []" "v \<noteq> []" "t \<noteq> []" "rho \<noteq> []"
    "wind_speed u v \<noteq> []"
    using ne len rho(2) stamps_text(1) [OF stamps] by (auto simp add: wind_speed_def)
  show ?thesis
    using ne' len rho stamps_text [OF stamps]
    by (simp add: create_dataframe_def stamps pd_DataFrame_def df_get_def df_set_def
        series_of_floats_def series_of_datetimes_def to_csv_def Let_def)
qed

lemma compute_air_density_default_Inr:
  assumes "length P = length T" and "compute_air_density T P None = Inr rho"
  shows "rho = map (\<lambda>i. density_formula (T ! i) (P ! i) (Fin 0.5)) [0..<length T]"
proof -
  have nn: "\<not> list_ex is_neg T" "\<not> list_ex is_neg P"
    using assms(2) compute_air_density_negative [of T P None] by auto
  have "rho = map (\<lambda>i. density_formula (T ! i) (P ! i) (rel_humidity_of T None ! i)) [0..<length T]"
    using compute_air_density_validated [OF assms(1) length_rel_humidity_default nn
        rel_humidity_default_not_neg] assms(2) by simp
  also have "\<dots> = map (\<lambda>i. density_formula (T ! i) (P ! i) (Fin 0.5)) [0..<length T]"
    by (rule map_cong) (simp_all add: rel_humidity_of_def)
  finally show ?thesis .
qed

lemma create_dataframe_stamps_fail:
  "map_exn (\<lambda>dt. pd_to_datetime (strftime dt)) dts = Inl e
   \<Longrightarrow> create_dataframe E dts u v t ps save_path w = (Inl e, w)"
  by (simp add: create_dataframe_def)

lemma create_dataframe_lengths_fail:
  assumes "map_exn (\<lambda>dt. pd_to_datetime (strftime dt)) dts = Inr stamps"
    and "\<not> (length ps = length dts \<and> length u = length dts \<and> length v = length dts \<and>
            length t = length dts)"
  shows "create_dataframe E dts u v t ps save_path w = (Inl (ValueError same_length_msg), w)"
proof -
  have "length stamps = length dts" by (rule stamps_text(1) [OF assms(1)])
  then have "pd_DataFrame [(''datetime'', series_of_datetimes stamps),
                         (''surface_pressure'', series_of_floats ps),
                         (''u_50'', series_of_floats u),
                         (''v_50'', series_of_floats v),
                         (''temp_2m'', series_of_floats t)] = Inl (ValueError same_length_msg)"
    using assms(2) by (auto simp add: pd_DataFrame_def)
  then show ?thesis by (simp add: create_dataframe_def assms(1))
qed

lemma create_dataframe_density_fail:
  assumes "map_exn (\<lambda>dt. pd_to_datetime (strftime dt)) dts = Inr stamps"
    and "dts \<noteq> []"
    and "length ps = length dts" "length u = length dts" "length v = length dts"
      "length t = length dts"
    and "compute_air_density t ps None = Inl e"
  shows "create_dataframe E dts u v t ps save_path w = (Inl e, w)"
proof -
  have "stamps \<noteq> []" "ps \<noteq> []" "u \<noteq> []" "v \<noteq> []" "t \<noteq> []"
    using assms(2-6) stamps_text(1) [OF assms(1)] by auto
  then show ?thesis
    using assms stamps_text(1) [OF assms(1)]
    by (simp add: create_dataframe_def pd_DataFrame_def df_get_def
        series_of_floats_def series_of_datetimes_def)
qed

lemma create_dataframe_Inr:
  assumes ok: "fst (create_dataframe E dts u v t ps save_path w) = Inr df"
  shows "dts \<noteq> [] \<and> length ps = length dts \<and> length u = length dts \<and> length v = length dts \<and>
         length t = length dts \<and> can_write E save_path \<and>
         df = [(''datetime'', StrCol (map strftime dts)), (''surface_pressure'', FloatCol ps),
               (''u_50'', FloatCol u), (''v_50'', FloatCol v), (''temp_2m'', FloatCol t),
               (''dens_50m'', FloatCol (map (\<lambda>i. density_formula (t ! i) (ps ! i) (Fin 0.5)) [0..<length dts])),
               (''ws_50m'', FloatCol (wind_speed u v))]"
proof -
  obtain stamps where st: "map_exn (\<lambda>dt. pd_to_datetime (strftime dt)) dts = Inr stamps"
    using ok create_dataframe_stamps_fail [of dts _ E u v t ps save_path w]
    by (cases "map_exn (\<lambda>dt. pd_to_datetime (strftime dt)) dts") auto
  have "length ps = length dts \<and> length u = length dts \<and> length v = length dts \<and>
        length t = length dts"
  proof (rule ccontr)
    assume "\<not> ?thesis"
    from create_dataframe_lengths_fail [OF st this, of E save_path w] ok
    show False by simp
  qed
  then have len: "length ps = length dts" "length u = length dts" "length v = length dts"
    "length t = length dts"
    by simp_all
  have ne: "dts \<noteq> []"
    using ok create_dataframe_empty [of E u v t ps save_path w] by auto
  obtain rho where rho: "compute_air_density t ps None = Inr rho"
    using ok create_dataframe_density_fail [OF st ne len, of _ E save_path w]
    by (cases "compute_air_density t ps None") auto
  have rho_eq: "rho = map (\<lambda>i. density_formula (t ! i) (ps ! i) (Fin 0.5)) [0..<length dts]"
    using compute_air_density_default_Inr [OF _ rho] len by simp
  then have rho_len: "length rho = length dts" by simp
  from create_dataframe_run [OF st ne len rho rho_len, of E save_path w] ok
  show ?thesis
    using ne len rho_eq by (auto simp add: Let_def split: if_splits)
qed

lemma sqrt25: "sqrt 25 = 5"
  using real_sqrt_abs [of 5] by simp

lemma sample_time_ok:
  "valid_datetime sample_time" "in_timestamp_bounds sample_time"
  "valid_datetime earlier_time" "in_timestamp_bounds earlier_time"
  by (simp_all add: sample_time_def earlier_time_def valid_datetime_def in_timestamp_bounds_def
      stamp_key_def days_in_month_def)

lemma sample_time_text:
  "strftime sample_time = ''2020-01-02 03:04:05''"
  "strftime earlier_time = ''2000-01-01 00:30:00''"
  by (simp_all add: sample_time_def earlier_time_def strftime_def pad2_def pad4_def digit_char_simps)

lemma nrows_table:
  "nrows ((k, c) # rest) = col_length c"
  by (simp add: nrows_def)

text \<open>
  When \<open>create_dataframe\<close> returns a table: a series of one length, at least one sample,
  timestamps that pandas represents, no negative temperature or pressure, and a
  destination that can be written.
\<close>

lemma create_dataframe_succeeds:
  assumes "dts \<noteq> []"
    and "length ps = length dts" "length u = length dts" "length v = length dts"
      "length t = length dts"
    and "\<And>dt. dt \<in> set dts \<Longrightarrow> valid_datetime dt \<and> in_timestamp_bounds dt"
    and "\<not> list_ex is_neg t" "\<not> list_ex is_neg ps"
    and "can_write E save_path"
  shows "\<exists>df. fst (create_dataframe E dts u v t ps save_path w) = Inr df"
proof -
  have st: "map_exn (\<lambda>dt. pd_to_datetime (strftime dt)) dts = Inr (map (\<lambda>dt. dt\<lparr>microsecond := 0\<rparr>) dts)"
    by (rule map_exn_map) (simp add: assms(6) pd_to_datetime_strftime)
  have rho: "compute_air_density t ps None =
      Inr (map (\<lambda>i. density_formula (t ! i) (ps ! i) (rel_humidity_of t None ! i)) [0..<length t])"
    using assms by (intro compute_air_density_validated) simp_all
  show ?thesis
    using create_dataframe_run [OF st assms(1-5) rho, of E save_path w] assms
    by (simp add: Let_def)
qed

text \<open>
  Claim C6. In the table \<open>create_dataframe\<close> returns, the columns \<open>u_50\<close> and \<open>v_50\<close> are
  the two wind components it was given, and at every row \<open>i\<close> the column \<open>ws_50m\<close> holds
  \<open>sqrt(u_50[i]^2 + v_50[i]^2)\<close>. For \<open>u_50 = 3.0\<close> and \<open>v_50 = 4.0\<close> that is \<open>5.0\<close>.
\<close>

theorem create_dataframe_wind_speed:
  assumes "fst (create_dataframe E dts u v t ps save_path w) = Inr df"
  shows "df_get df ''u_50'' = Inr (FloatCol u) \<and> df_get df ''v_50'' = Inr (FloatCol v) \<and>
         (\<exists>ws. df_get df ''ws_50m'' = Inr (FloatCol ws) \<and> length ws = nrows df \<and>
            (\<forall>i < nrows df. ws ! i = fsqrt (fadd (fsquare (u ! i)) (fsquare (v ! i)))))"
  using create_dataframe_Inr [OF assms]
  by (simp add: df_get_def nrows_table wind_speed_def)

theorem create_dataframe_wind_speed_witness:
  "\<exists>df. fst (create_dataframe offline_env [sample_time] [Fin 3] [Fin 4] [Fin 280] [Fin 101325]
            ''out.csv'' empty_world) = Inr df
        \<and> df_get df ''ws_50m'' = Inr (FloatCol [Fin 5])"
proof -
  have "\<exists>df. fst (create_dataframe offline_env [sample_time] [Fin 3] [Fin 4] [Fin 280] [Fin 101325]
            ''out.csv'' empty_world) = Inr df"
    by (rule create_dataframe_succeeds) (simp_all add: sample_time_ok offline_env_def)
  then obtain df where df: "fst (create_dataframe offline_env [sample_time] [Fin 3] [Fin 4] [Fin 280]
      [Fin 101325] ''out.csv'' empty_world) = Inr df" ..
  from create_dataframe_wind_speed [OF df]
  obtain ws where ws: "df_get df ''ws_50m'' = Inr (FloatCol ws)" "length ws = nrows df"
      "\<forall>i < nrows df. ws ! i = fsqrt (fadd (fsquare ([Fin 3] ! i)) (fsquare ([Fin 4] ! i)))"
    by blast
  have n: "nrows df = 1"
    using create_dataframe_Inr [OF df] by (simp add: nrows_table)
  have "ws = [Fin 5]"
    using ws(2,3) n by (cases ws) (simp_all add: sqrt25)
  with df ws(1) show ?thesis by blast
qed

lemma create_dataframe_Inr_texts:
  assumes ok: "fst (create_dataframe E dts u v t ps save_path w) = Inr df"
  shows "\<forall>dt \<in> set dts. timestamp_format (strftime dt)"
proof -
  obtain stamps where st: "map_exn (\<lambda>dt. pd_to_datetime (strftime dt)) dts = Inr stamps"
    using ok create_dataframe_stamps_fail [of dts _ E u v t ps save_path w]
    by (cases "map_exn (\<lambda>dt. pd_to_datetime (strftime dt)) dts") auto
  show ?thesis
  proof
    fix dt assume "dt \<in> set dts"
    then obtain i where i: "i < length dts" "dts ! i = dt"
      by (auto simp add: in_set_conv_nth)
    with map_exn_Inr [OF st] have "pd_to_datetime (strftime dt) = Inr (stamps ! i)"
      by auto
    then show "timestamp_format (strftime dt)"
      by (auto simp add: pd_to_datetime_def split: if_splits)
  qed
qed

text \<open>
  With no sample at all the columns have dtype object, and the \<open>.dt\<close> accessor of the
  last step raises.
\<close>

lemma create_dataframe_no_rows:
  "create_dataframe E [] [] [] [] [] save_path w = (Inl (AttributeError dt_accessor_msg), w)"
  by (simp add: create_dataframe_def pd_DataFrame_def df_get_def df_set_def
      series_of_floats_def series_of_datetimes_def wind_speed_def Let_def
      compute_air_density_def rel_humidity_of_def bindE_def broadcast2_def)

text \<open>
  Claim C7 as stated, for every series, does not hold: a series of length one whose
  temperature is negative is rejected by the density model's validation, and
  \<open>create_dataframe\<close> raises instead of returning a table.
\<close>

theorem create_dataframe_table_counterexample:
  "fst (create_dataframe offline_env [sample_time] [Fin 3] [Fin 4] [Fin (- 1)] [Fin 101325]
         ''out.csv'' empty_world) = Inl (ValueError negative_values_msg)"
proof -
  have st: "map_exn (\<lambda>dt. pd_to_datetime (strftime dt)) [sample_time]
              = Inr (map (\<lambda>dt. dt\<lparr>microsecond := 0\<rparr>) [sample_time])"
    by (rule map_exn_map) (simp add: sample_time_ok pd_to_datetime_strftime)
  have "compute_air_density [Fin (- 1)] [Fin 101325] None = Inl (ValueError negative_values_msg)"
    by (rule compute_air_density_negative) simp
  from create_dataframe_density_fail [OF st _ _ _ _ _ this]
  show ?thesis by simp
qed

text \<open>
  The shape of every table \<open>create_dataframe\<close> returns.
\<close>

lemma create_dataframe_returned_shape:
  assumes "fst (create_dataframe E dts u v t ps save_path w) = Inr df"
  shows "nrows df = length dts \<and>
         (\<forall>c \<in> set (map snd df). col_length c = length dts) \<and>
         map fst df = [''datetime'', ''surface_pressure'', ''u_50'', ''v_50'', ''temp_2m'',
                       ''dens_50m'', ''ws_50m''] \<and>
         (\<exists>texts. df_get df ''datetime'' = Inr (StrCol texts) \<and> length texts = length dts \<and>
            (\<forall>s \<in> set texts. timestamp_format s))"
  using create_dataframe_Inr [OF assms] create_dataframe_Inr_texts [OF assms]
  by (simp add: nrows_table df_get_def wind_speed_def)

text \<open>
  Claim C7, amended. For every series of length \<open>N \<ge> 1\<close> (five lists of that length,
  timestamps that are calendar dates pandas represents) with no negative temperature and
  no negative pressure, and a destination that can be written, \<open>create_dataframe\<close>
  returns a table: it has exactly \<open>N\<close> rows, every column has \<open>N\<close> values, the columns
  are \<open>datetime, surface_pressure, u_50, v_50, temp_2m, dens_50m, ws_50m\<close> in this order,
  and every value of \<open>datetime\<close> is a text of the shape \<open>YYYY-MM-DD HH:MM:SS\<close>, nineteen
  characters with nothing after the seconds.
\<close>

theorem create_dataframe_table:
  assumes "dts \<noteq> []"
    and "length ps = length dts" "length u = length dts" "length v = length dts"
      "length t = length dts"
    and "\<forall>dt \<in> set dts. valid_datetime dt \<and> in_timestamp_bounds dt"
    and "\<not> list_ex is_neg t" "\<not> list_ex is_neg ps"
    and "can_write E save_path"
  shows "\<exists>df. fst (create_dataframe E dts u v t ps save_path w) = Inr df \<and>
           nrows df = length dts \<and>
           (\<forall>c \<in> set (map snd df). col_length c = length dts) \<and>
           map fst df = [''datetime'', ''surface_pressure'', ''u_50'', ''v_50'', ''temp_2m'',
                         ''dens_50m'', ''ws_50m''] \<and>
           (\<exists>texts. df_get df ''datetime'' = Inr (StrCol texts) \<and> length texts = length dts \<and>
              (\<forall>s \<in> set texts. timestamp_format s))"
proof -
  have "\<exists>df. fst (create_dataframe E dts u v t ps save_path w) = Inr df"
    using assms by (intro create_dataframe_succeeds) simp_all
  then obtain df where df: "fst (create_dataframe E dts u v t ps save_path w) = Inr df" ..
  from create_dataframe_returned_shape [OF df] df show ?thesis
    by (intro exI [of _ df]) simp
qed

theorem create_dataframe_table_witness:
  "\<exists>df. fst (create_dataframe offline_env [sample_time, earlier_time] [Fin 3, Fin 0] [Fin 4, Fin 1]
            [Fin 280, Fin 290] [Fin 101325, Fin 100000] ''out.csv'' empty_world) = Inr df
        \<and> nrows df = 2
        \<and> map fst df = [''datetime'', ''surface_pressure'', ''u_50'', ''v_50'', ''temp_2m'',
                         ''dens_50m'', ''ws_50m'']
        \<and> df_get df ''datetime'' = Inr (StrCol [''2020-01-02 03:04:05'', ''2000-01-01 00:30:00''])"
proof -
  have h: "\<forall>dt \<in> set [sample_time, earlier_time]. valid_datetime dt \<and> in_timestamp_bounds dt"
    by (simp add: sample_time_ok)
  have c: "can_write offline_env ''out.csv''"
    by (simp add: offline_env_def)
  from create_dataframe_table [of "[sample_time, earlier_time]" "[Fin 101325, Fin 100000]"
      "[Fin 3, Fin 0]" "[Fin 4, Fin 1]" "[Fin 280, Fin 290]" offline_env "''out.csv''" empty_world,
      OF _ _ _ _ _ h _ _ c]
  obtain df where df: "fst (create_dataframe offline_env [sample_time, earlier_time]
      [Fin 3, Fin 0] [Fin 4, Fin 1] [Fin 280, Fin 290] [Fin 101325, Fin 100000] ''out.csv''
      empty_world) = Inr df"
    and n: "nrows df = 2"
    and cols: "map fst df = [''datetime'', ''surface_pressure'', ''u_50'', ''v_50'', ''temp_2m'',
                         ''dens_50m'', ''ws_50m'']"
    by auto
  have "df_get df ''datetime'' = Inr (StrCol [''2020-01-02 03:04:05'', ''2000-01-01 00:30:00''])"
    using create_dataframe_Inr [OF df] by (simp add: df_get_def sample_time_text)
  with df n cols show ?thesis
    by (intro exI [of _ df]) simp
qed

text \<open>
  Claim C8. Row \<open>i\<close> of the table is sample \<open>i\<close> of the series: every column holds at
  \<open>i\<close> the value taken or derived from the \<open>i\<close>-th elements of the accumulated lists, so
  the rows stand in accumulation order and are not sorted by time. In the witness the
  later timestamp comes first in the series and first in the table.
\<close>

theorem create_dataframe_row_order:
  assumes "fst (create_dataframe E dts u v t ps save_path w) = Inr df" and "i < nrows df"
  shows "\<exists>texts pcol ucol vcol tcol dcol wcol.
           df_get df ''datetime'' = Inr (StrCol texts) \<and> texts ! i = strftime (dts ! i) \<and>
           df_get df ''surface_pressure'' = Inr (FloatCol pcol) \<and> pcol ! i = ps ! i \<and>
           df_get df ''u_50'' = Inr (FloatCol ucol) \<and> ucol ! i = u ! i \<and>
           df_get df ''v_50'' = Inr (FloatCol vcol) \<and> vcol ! i = v ! i \<and>
           df_get df ''temp_2m'' = Inr (FloatCol tcol) \<and> tcol ! i = t ! i \<and>
           df_get df ''dens_50m'' = Inr (FloatCol dcol) \<and>
             dcol ! i = density_formula (t ! i) (ps ! i) (Fin 0.5) \<and>
           df_get df ''ws_50m'' = Inr (FloatCol wcol) \<and>
             wcol ! i = fsqrt (fadd (fsquare (u ! i)) (fsquare (v ! i)))"
  using create_dataframe_Inr [OF assms(1)] assms(2)
  by (simp add: df_get_def nrows_table wind_speed_def)

theorem create_dataframe_row_order_witness:
  "\<exists>df. fst (create_dataframe offline_env [sample_time, earlier_time] [Fin 3, Fin 0] [Fin 4, Fin 1]
            [Fin 280, Fin 290] [Fin 101325, Fin 100000] ''out.csv'' empty_world) = Inr df
        \<and> nrows df = 2
        \<and> (\<exists>texts pcol. df_get df ''datetime'' = Inr (StrCol texts)
              \<and> texts ! 0 = ''2020-01-02 03:04:05'' \<and> texts ! 1 = ''2000-01-01 00:30:00''
              \<and> df_get df ''surface_pressure'' = Inr (FloatCol pcol)
              \<and> pcol ! 0 = Fin 101325 \<and> pcol ! 1 = Fin 100000)"
proof -
  have "\<exists>df. fst (create_dataframe offline_env [sample_time, earlier_time] [Fin 3, Fin 0] [Fin 4, Fin 1]
            [Fin 280, Fin 290] [Fin 101325, Fin 100000] ''out.csv'' empty_world) = Inr df"
    by (rule create_dataframe_succeeds) (auto simp add: sample_time_ok offline_env_def)
  then obtain df where df: "fst (create_dataframe offline_env [sample_time, earlier_time]
      [Fin 3, Fin 0] [Fin 4, Fin 1] [Fin 280, Fin 290] [Fin 101325, Fin 100000] ''out.csv''
      empty_world) = Inr df" ..
  have n: "nrows df = 2"
    using create_dataframe_Inr [OF df] by (simp add: nrows_table)
  from create_dataframe_row_order [OF df, of 0] create_dataframe_row_order [OF df, of 1] n df
  show ?thesis by (auto simp add: sample_time_text)
qed

section \<open>Properties of the source decoder\<close>

text \<open>Each turn of the loop adds one entry to the record of attempts; nothing else touches it.\<close>

lemma try_source_attempts:
  "attempts (fst (snd (try_source E url p w acc))) = attempts w"
  by (simp add: try_source_def Let_def split: sum.splits option.splits)

lemma process_source_attempts:
  "attempts (fst (process_source E d st url)) =
     attempts (fst st) @ [(strip url, os_path_join d (strip (slice 108 116 url) @ ''-site.nc4''))]"
proof -
  let ?p = "os_path_join d (file_name_of url)"
  let ?w = "(fst st)\<lparr>attempts := attempts (fst st) @ [(strip url, ?p)]\<rparr>"
  obtain r w' acc' where t: "try_source E (strip url) ?p ?w (snd st) = (r, w', acc')"
    by (cases "try_source E (strip url) ?p ?w (snd st)") auto
  have "attempts w' = attempts ?w"
    using try_source_attempts [of E "strip url" ?p ?w "snd st"] t by simp
  then show ?thesis
    using t by (cases r) (simp_all add: process_source_def Let_def file_name_of_def)
qed

lemma foldl_process_source_attempts:
  "attempts (fst (foldl (process_source E d) st urls)) =
     attempts (fst st) @
     map (\<lambda>l. (strip l, os_path_join d (strip (slice 108 116 l) @ ''-site.nc4''))) urls"
  by (induction urls arbitrary: st) (simp_all add: process_source_attempts)

lemma create_dataframe_attempts:
  "attempts (snd (create_dataframe E dts u v t ps save_path w)) = attempts w"
  by (auto simp add: create_dataframe_def to_csv_def Let_def split: sum.splits if_splits)

text \<open>
  On a line that is a URL without whitespace, with or without the newline that ends it,
  \<open>strip\<close> gives the URL, and the stripped slice of the line is the slice of the URL.
\<close>

lemma strip_clean:
  assumes "\<forall>c \<in> set u. \<not> is_space c"
  shows "strip u = u" and "strip (u @ [CHR 0x0A]) = u"
proof -
  have nl: "is_space (CHR 0x0A)" by (simp add: is_space_def)
  have keep: "\<And>xs. \<forall>c \<in> set xs. \<not> is_space c \<Longrightarrow> dropWhile is_space xs = xs"
    by (case_tac xs) simp_all
  have front: "dropWhile is_space u = u"
    using assms by (rule keep)
  have rear: "dropWhile is_space (rev u) = rev u"
    using assms by (intro keep) simp
  show "strip u = u"
    by (simp add: strip_def front rear)
  show "strip (u @ [CHR 0x0A]) = u"
  proof (cases u)
    case Nil
    then show ?thesis by (simp add: strip_def nl)
  next
    case (Cons a as)
    then have "\<not> is_space a" using assms by simp
    then have "dropWhile is_space (u @ [CHR 0x0A]) = u @ [CHR 0x0A]"
      using Cons by simp
    then show ?thesis by (simp add: strip_def nl rear)
  qed
qed

lemma slice_snoc:
  "a \<le> b \<Longrightarrow> slice a b (u @ [c]) = (if a \<le> length u \<and> length u < b then slice a b u @ [c] else slice a b u)"
  by (auto simp add: slice_def)

lemma slice_subset: "set (slice a b u) \<subseteq> set u"
  unfolding slice_def by (meson set_drop_subset set_take_subset subset_trans)

lemma file_name_clean:
  assumes "\<forall>c \<in> set u. \<not> is_space c" and "l = u \<or> l = u @ [CHR 0x0A]"
  shows "strip l = u \<and> strip (slice 108 116 l) = slice 108 116 u"
proof -
  have sl: "\<forall>c \<in> set (slice 108 116 u). \<not> is_space c"
    using assms(1) slice_subset [of 108 116 u] by blast
  from assms(2) show ?thesis
  proof
    assume "l = u"
    then show ?thesis using strip_clean(1) [OF assms(1)] strip_clean(1) [OF sl] by simp
  next
    assume l: "l = u @ [CHR 0x0A]"
    have "strip (slice 108 116 (u @ [CHR 0x0A])) = slice 108 116 u"
      using strip_clean [OF sl] by (simp add: slice_snoc)
    then show ?thesis using l strip_clean(2) [OF assms(1)] by simp
  qed
qed

lemma sample_url_clean:
  "\<forall>c \<in> set sample_url. \<not> is_space c" "\<forall>c \<in> set second_url. \<not> is_space c"
  by (simp_all add: sample_url_def second_url_def is_space_def)

lemma sample_url_name:
  "slice 108 116 sample_url = ''20000101''" "slice 108 116 second_url = ''20000102''"
  by (simp_all add: slice_def sample_url_def second_url_def)

lemma sample_line:
  "strip (sample_url @ [CHR 0x0A]) = sample_url"
  "file_name_of (sample_url @ [CHR 0x0A]) = ''20000101-site.nc4''"
  "os_path_join ''out'' (file_name_of (sample_url @ [CHR 0x0A])) = ''out/20000101-site.nc4''"
proof -
  from file_name_clean [OF sample_url_clean(1), of "sample_url @ [CHR 0x0A]"]
  have a: "strip (sample_url @ [CHR 0x0A]) = sample_url"
    and b: "strip (slice 108 116 (sample_url @ [CHR 0x0A])) = slice 108 116 sample_url"
    by simp_all
  show "strip (sample_url @ [CHR 0x0A]) = sample_url" by (rule a)
  show c: "file_name_of (sample_url @ [CHR 0x0A]) = ''20000101-site.nc4''"
    unfolding file_name_of_def b sample_url_name by simp
  show "os_path_join ''out'' (file_name_of (sample_url @ [CHR 0x0A])) = ''out/20000101-site.nc4''"
    unfolding c by (simp add: os_path_join_def)
qed

text \<open>
  A source whose retrieval fails leaves files and accumulators as they were, and a
  source that is processed to the end leaves no artifact behind.
\<close>

lemma try_source_request_failure:
  "http_get E url = Inl e \<Longrightarrow> try_source E url p w acc = (Some e, w, acc)"
  by (simp add: try_source_def)

lemma try_source_status_failure:
  "http_get E url = Inr r \<Longrightarrow> raise_for_status r = Inl e \<Longrightarrow>
   try_source E url p w acc = (Some e, w, acc)"
  by (simp add: try_source_def)

lemma try_source_success:
  assumes "try_source E url p w acc = (None, w', acc')"
  shows "files w' p = None"
  using assms
  by (auto simp add: try_source_def Let_def split: sum.splits if_splits)

lemma process_offline_source:
  "process_source offline_env d st url =
     ((fst st)\<lparr>attempts := attempts (fst st) @ [(strip url, os_path_join d (file_name_of url))],
               stdout := stdout (fst st) @ [Failed (file_name_of url) (RequestException (strip url))]\<rparr>,
      snd st)"
proof -
  have "http_get offline_env (strip url) = Inl (RequestException (strip url))"
    by (simp add: offline_env_def)
  from try_source_request_failure [OF this]
  show ?thesis by (simp add: process_source_def Let_def)
qed

text \<open>
  Claim C9. \<open>fetch_and_process_data\<close> drops the first line of the manifest and takes the
  lines after it one by one, in the manifest's order: for each it requests the stripped
  line and derives the artifact's name as the stripped characters at offsets 108 to 115
  of the line followed by \<open>-site.nc4\<close>, joined to the output directory. For a line that
  is a URL without whitespace, ended by a newline or not, the text requested is the URL
  and the name is the URL's own slice \<open>[108:116]\<close> with the suffix.
\<close>

theorem fetch_sources_in_manifest_order:
  assumes "manifest E file_path = Some lines"
  shows "attempts (snd (fetch_and_process_data E file_path output_dir save_path w)) =
           attempts w @
           map (\<lambda>l. (strip l, os_path_join output_dir (strip (slice 108 116 l) @ ''-site.nc4'')))
             (drop 1 lines)
         \<and> (\<forall>l \<in> set (drop 1 lines). \<forall>u.
               (\<forall>c \<in> set u. \<not> is_space c) \<and> (l = u \<or> l = u @ [CHR 0x0A]) \<longrightarrow>
               strip l = u \<and> strip (slice 108 116 l) = slice 108 116 u)"
proof
  show "attempts (snd (fetch_and_process_data E file_path output_dir save_path w)) =
           attempts w @
           map (\<lambda>l. (strip l, os_path_join output_dir (strip (slice 108 116 l) @ ''-site.nc4'')))
             (drop 1 lines)"
    using assms
    by (simp add: fetch_and_process_data_def Let_def create_dataframe_attempts
        foldl_process_source_attempts)
  show "\<forall>l \<in> set (drop 1 lines). \<forall>u.
               (\<forall>c \<in> set u. \<not> is_space c) \<and> (l = u \<or> l = u @ [CHR 0x0A]) \<longrightarrow>
               strip l = u \<and> strip (slice 108 116 l) = slice 108 116 u"
    using file_name_clean by blast
qed

theorem fetch_sources_in_manifest_order_witness:
  "attempts (snd (fetch_and_process_data offline_env ''manifest.txt'' ''out'' ''out.csv'' empty_world))
     = [(sample_url, ''out/20000101-site.nc4''), (second_url, ''out/20000102-site.nc4'')]
   \<and> stdout (snd (fetch_and_process_data offline_env ''manifest.txt'' ''out'' ''out.csv'' empty_world))
     = [Failed ''20000101-site.nc4'' (RequestException sample_url),
        Failed ''20000102-site.nc4'' (RequestException second_url)]"
proof -
  let ?lines = "[''header'' @ [CHR 0x0A], sample_url @ [CHR 0x0A], second_url]"
  have m: "manifest offline_env ''manifest.txt'' = Some ?lines"
    by (simp add: offline_env_def)
  note T = fetch_sources_in_manifest_order [OF m, of "''out''" "''out.csv''" empty_world]
  have d: "drop 1 ?lines = [sample_url @ [CHR 0x0A], second_url]" by simp
  from T have clean: "\<And>l u. l \<in> set (drop 1 ?lines) \<Longrightarrow> \<forall>c \<in> set u. \<not> is_space c \<Longrightarrow>
      l = u \<or> l = u @ [CHR 0x0A] \<Longrightarrow> strip l = u \<and> strip (slice 108 116 l) = slice 108 116 u"
    by blast
  have a: "strip (sample_url @ [CHR 0x0A]) = sample_url
           \<and> strip (slice 108 116 (sample_url @ [CHR 0x0A])) = slice 108 116 sample_url"
    by (rule clean [OF _ sample_url_clean(1)]) (simp_all only: d list.set_intros simp_thms)
  have b: "strip second_url = second_url
           \<and> strip (slice 108 116 second_url) = slice 108 116 second_url"
    by (rule clean [OF _ sample_url_clean(2)]) (simp_all only: d list.set_intros simp_thms)
  have names: "file_name_of (sample_url @ [CHR 0x0A]) = ''20000101-site.nc4''"
    "file_name_of second_url = ''20000102-site.nc4''"
    unfolding file_name_of_def using a b by (simp_all add: sample_url_name)
  from T have "attempts (snd (fetch_and_process_data offline_env ''manifest.txt'' ''out'' ''out.csv''
      empty_world)) = attempts empty_world @
        map (\<lambda>l. (strip l, os_path_join ''out'' (strip (slice 108 116 l) @ ''-site.nc4'')))
          (drop 1 ?lines)"
    by (rule conjunct1)
  also have "\<dots> = [(sample_url, os_path_join ''out'' (''20000101'' @ ''-site.nc4'')),
                    (second_url, os_path_join ''out'' (''20000102'' @ ''-site.nc4''))]"
    unfolding d by (simp add: a b [unfolded sample_url_name] sample_url_name empty_world_def)
  also have "\<dots> = [(sample_url, ''out/20000101-site.nc4''), (second_url, ''out/20000102-site.nc4'')]"
    by (simp add: os_path_join_def)
  finally have first: "attempts (snd (fetch_and_process_data offline_env ''manifest.txt'' ''out''
      ''out.csv'' empty_world))
     = [(sample_url, ''out/20000101-site.nc4''), (second_url, ''out/20000102-site.nc4'')]" .
  have "stdout (snd (fetch_and_process_data offline_env ''manifest.txt'' ''out'' ''out.csv'' empty_world))
     = [Failed ''20000101-site.nc4'' (RequestException sample_url),
        Failed ''20000102-site.nc4'' (RequestException second_url)]"
    by (simp add: fetch_and_process_data_def m process_offline_source names a b no_samples_def
        create_dataframe_no_rows empty_world_def)
  with first show ?thesis by simp
qed

text \<open>
  A source whose dataset has \<open>U50M\<close> and lacks \<open>V50M\<close>: \<open>u_50\<close> is extended before the
  lookup of \<open>V50M\<close> raises.
\<close>

lemma process_partial_source:
  "process_source partial_env ''out'' (empty_world, no_samples) (sample_url @ [CHR 0x0A]) =
     (\<lparr> files = [''out/20000101-site.nc4'' \<mapsto> Binary ''payload''],
        stdout = [Failed ''20000101-site.nc4'' (KeyError ''V50M'')],
        attempts = [(sample_url, ''out/20000101-site.nc4'')] \<rparr>,
      \<lparr> u_50 = [Fin 3], v_50 = [], T2M = [], PS = [], DateTimes = [] \<rparr>)"
  by (simp add: process_source_def sample_line os_path_join_def try_source_def partial_env_def Let_def
      raise_for_status_def open_dataset_def first_cells_def partial_dataset_def empty_world_def
      no_samples_def)

text \<open>
  Claim C1 says that a source that fails during retrieval, decoding or extraction changes
  none of the five accumulators, so that they keep one length. The program breaks this on
  a source that fails in the middle of the extraction: after the source above, whose
  failure is caught and printed, \<open>u_50\<close> has one element more and the other four
  accumulators have none, and the run ends in the ValueError that \<open>pd.DataFrame\<close> raises
  for lists of different lengths.
\<close>

theorem fetch_partial_source_not_atomic:
  "(let st = process_source partial_env ''out'' (empty_world, no_samples) (sample_url @ [CHR 0x0A])
    in stdout (fst st) = [Failed ''20000101-site.nc4'' (KeyError ''V50M'')] \<and>
       u_50 (snd st) = [Fin 3] \<and> v_50 (snd st) = [] \<and> T2M (snd st) = [] \<and> PS (snd st) = [] \<and>
       DateTimes (snd st) = [])
   \<and> fst (fetch_and_process_data partial_env ''manifest.txt'' ''out'' ''out.csv'' empty_world)
       = Inl (ValueError same_length_msg)"
proof -
  have m: "manifest partial_env ''manifest.txt'' = Some [''header'' @ [CHR 0x0A], sample_url @ [CHR 0x0A]]"
    by (simp add: partial_env_def)
  have "create_dataframe partial_env [] [Fin 3] [] [] [] ''out.csv'' w
          = (Inl (ValueError same_length_msg), w)" for w
    by (rule create_dataframe_lengths_fail [where stamps = "[]"]) simp_all
  then have "fst (fetch_and_process_data partial_env ''manifest.txt'' ''out'' ''out.csv'' empty_world)
       = Inl (ValueError same_length_msg)"
    by (simp add: fetch_and_process_data_def m process_partial_source)
  then show ?thesis
    by (simp add: process_partial_source)
qed

lemma process_garbage_source:
  "process_source garbage_env ''out'' (empty_world, no_samples) (sample_url @ [CHR 0x0A]) =
     (\<lparr> files = [''out/20000101-site.nc4'' \<mapsto> Binary ''<html>busy</html>''],
        stdout = [Failed ''20000101-site.nc4'' (OSError ''out/20000101-site.nc4'')],
        attempts = [(sample_url, ''out/20000101-site.nc4'')] \<rparr>,
      \<lparr> u_50 = [], v_50 = [], T2M = [], PS = [], DateTimes = [] \<rparr>)"
  by (simp add: process_source_def sample_line os_path_join_def try_source_def garbage_env_def Let_def
      raise_for_status_def open_dataset_def empty_world_def no_samples_def)

text \<open>
  Claim C2 says that the temporary artifact is deleted after extraction on success and on
  a decode failure alike. The program deletes it on success only: \<open>os.remove\<close> is the
  last statement of the \<open>try\<close>, and a payload that the NetCDF reader cannot open leaves
  the file on disk, after the source and at the end of the run.
\<close>

theorem fetch_undecodable_source_keeps_artifact:
  "files (fst (process_source garbage_env ''out'' (empty_world, no_samples) (sample_url @ [CHR 0x0A])))
     ''out/20000101-site.nc4'' = Some (Binary ''<html>busy</html>'')
   \<and> files (snd (fetch_and_process_data garbage_env ''manifest.txt'' ''out'' ''out.csv'' empty_world))
     ''out/20000101-site.nc4'' = Some (Binary ''<html>busy</html>'')"
proof -
  have m: "manifest garbage_env ''manifest.txt'' = Some [''header'' @ [CHR 0x0A], sample_url @ [CHR 0x0A]]"
    by (simp add: garbage_env_def)
  show ?thesis
    by (simp add: fetch_and_process_data_def m process_garbage_source create_dataframe_no_rows)
qed

lemma process_good_source:
  "process_source good_env ''out'' (empty_world, no_samples) (sample_url @ [CHR 0x0A]) =
     (\<lparr> files = Map.empty, stdout = [], attempts = [(sample_url, ''out/20000101-site.nc4'')] \<rparr>,
      \<lparr> u_50 = [Fin 3], v_50 = [Fin 4], T2M = [Fin 280], PS = [Fin 101325],
        DateTimes = [earlier_time] \<rparr>)"
  by (simp add: process_source_def sample_line os_path_join_def try_source_def good_env_def Let_def
      raise_for_status_def open_dataset_def first_cells_def full_dataset_def decode_time_def
      empty_world_def no_samples_def)

text \<open>
  A run over one source that decodes in full: one row, the artifact gone, the table
  written.
\<close>

lemma fetch_good_source:
  "\<exists>df. fetch_and_process_data good_env ''manifest.txt'' ''out'' ''out.csv'' empty_world =
     (Inr df, \<lparr> files = [''out.csv'' \<mapsto> CsvTable df], stdout = [Saved ''out.csv''],
                attempts = [(sample_url, ''out/20000101-site.nc4'')] \<rparr>)
     \<and> nrows df = 1
     \<and> df_get df ''datetime'' = Inr (StrCol [''2000-01-01 00:30:00''])"
proof -
  have m: "manifest good_env ''manifest.txt'' = Some [''header'' @ [CHR 0x0A], sample_url @ [CHR 0x0A]]"
    by (simp add: good_env_def)
  have st: "map_exn (\<lambda>dt. pd_to_datetime (strftime dt)) [earlier_time]
              = Inr (map (\<lambda>dt. dt\<lparr>microsecond := 0\<rparr>) [earlier_time])"
    by (rule map_exn_map) (simp add: sample_time_ok pd_to_datetime_strftime)
  have rho: "compute_air_density [Fin 280] [Fin 101325] None =
      Inr (map (\<lambda>i. density_formula ([Fin 280] ! i) ([Fin 101325] ! i)
                 (rel_humidity_of [Fin 280] None ! i)) [0..<length [Fin 280]])"
    by (rule compute_air_density_validated) simp_all
  have w: "can_write good_env ''out.csv''" by (simp add: good_env_def)
  show ?thesis
    using create_dataframe_run [OF st _ _ _ _ _ rho, of "[Fin 3]" "[Fin 4]" good_env "''out.csv''"] w
    by (simp add: fetch_and_process_data_def m process_good_source Let_def nrows_table df_get_def
        sample_time_text)
qed

end
